theory Spec2Isabelle
  imports Complex_Main
begin

section \<open>Calendar dates\<close>

text \<open>
  The program handles \<^verbatim>\<open>datetime.date\<close> values and only ever calls
  \<^verbatim>\<open>replace\<close> and \<^verbatim>\<open>strftime\<close> on them. A date is a record of year,
  month and day; \<^verbatim>\<open>replace\<close> builds a new date and raises \<^verbatim>\<open>ValueError\<close>
  when the fields do not name a day of the proleptic Gregorian calendar with a
  year between 1 and 9999.
\<close>

datatype py_error = ValueError | ZeroDivisionError

record date =
  year :: int
  month :: int
  day :: int

definition is_leap :: "int \<Rightarrow> bool" where
  "is_leap y = (y mod 4 = 0 \<and> (y mod 100 \<noteq> 0 \<or> y mod 400 = 0))"

definition days_in_month :: "int \<Rightarrow> int \<Rightarrow> int" where
  "days_in_month y m =
     (if m = 2 then (if is_leap y then 29 else 28)
      else if m = 4 \<or> m = 6 \<or> m = 9 \<or> m = 11 then 30 else 31)"

definition valid_date :: "date \<Rightarrow> bool" where
  "valid_date d =
     (1 \<le> year d \<and> year d \<le> 9999 \<and> 1 \<le> month d \<and> month d \<le> 12 \<and>
      1 \<le> day d \<and> day d \<le> days_in_month (year d) (month d))"

definition make_date :: "int \<Rightarrow> int \<Rightarrow> int \<Rightarrow> py_error + date" where
  "make_date y m d =
     (let r = \<lparr>year = y, month = m, day = d\<rparr>
      in if valid_date r then Inr r else Inl ValueError)"

definition replace_year :: "date \<Rightarrow> int \<Rightarrow> py_error + date" where
  "replace_year d y = make_date y (month d) (day d)"

definition replace_month :: "date \<Rightarrow> int \<Rightarrow> py_error + date" where
  "replace_month d m = make_date (year d) m (day d)"

definition replace_day :: "date \<Rightarrow> int \<Rightarrow> py_error + date" where
  "replace_day d n = make_date (year d) (month d) n"

definition replace_year_month :: "date \<Rightarrow> int \<Rightarrow> int \<Rightarrow> py_error + date" where
  "replace_year_month d y m = make_date y m (day d)"

definition month_abbr :: "int \<Rightarrow> string" where
  "month_abbr m =
     (if m = 1 then ''Jan'' else if m = 2 then ''Feb'' else if m = 3 then ''Mar''
      else if m = 4 then ''Apr'' else if m = 5 then ''May'' else if m = 6 then ''Jun''
      else if m = 7 then ''Jul'' else if m = 8 then ''Aug'' else if m = 9 then ''Sep''
      else if m = 10 then ''Oct'' else if m = 11 then ''Nov'' else ''Dec'')"

text \<open>
  \<^verbatim>\<open>strftime("%b %Y")\<close> is kept as the pair of the month abbreviation and the
  year number, \<^verbatim>\<open>strftime("%Y")\<close> as the year number.
\<close>

definition strftime_b_Y :: "date \<Rightarrow> string \<times> int" where
  "strftime_b_Y d = (month_abbr (month d), year d)"

definition strftime_Y :: "date \<Rightarrow> int" where
  "strftime_Y d = year d"

section \<open>Inputs and the summary\<close>

text \<open>
  The eleven parameters shared by \<^verbatim>\<open>calculate_mortgage\<close>,
  \<^verbatim>\<open>generate_yearly_schedule\<close> and \<^verbatim>\<open>generate_monthly_schedule\<close>.
  Python floats are modelled as exact reals: rounding, overflow and the
  special values are left out. The two overrides default to \<^verbatim>\<open>None\<close>.
\<close>

record loan_input =
  home_value :: real
  down_payment :: real
  interest_rate :: real
  loan_term_years :: int
  start_date :: date
  property_tax :: real
  pmi_rate :: real
  home_insurance :: real
  hoa_fee :: real
  override_rate :: "real option"
  override_term :: "int option"

record results =
  res_loan_amount :: real
  res_monthly_payment_pi :: real
  res_total_monthly_payment :: real
  res_total_interest_paid :: real
  res_loan_payoff_date :: "string \<times> int"
  res_annual_payment :: real
  res_total_payments :: real
  res_property_tax_monthly :: real
  res_pmi_monthly :: real
  res_home_insurance_monthly :: real
  res_hoa_fee :: real

text \<open>\<^verbatim>\<open>if override_term and override_term > 0: loan_term_years = int(override_term)\<close>\<close>

definition effective_term :: "loan_input \<Rightarrow> int" where
  "effective_term inp =
     (case override_term inp of
        None \<Rightarrow> loan_term_years inp
      | Some t \<Rightarrow> if t \<noteq> 0 \<and> t > 0 then t else loan_term_years inp)"

text \<open>\<^verbatim>\<open>if override_rate is not None and override_rate > 0: ... = float(override_rate) / 100\<close>\<close>

definition effective_rate_decimal :: "loan_input \<Rightarrow> real" where
  "effective_rate_decimal inp =
     (case override_rate inp of
        None \<Rightarrow> interest_rate inp / 100
      | Some r \<Rightarrow> if r > 0 then r / 100 else interest_rate inp / 100)"

definition loan_amount :: "loan_input \<Rightarrow> real" where
  "loan_amount inp = home_value inp - down_payment inp"

definition monthly_rate :: "loan_input \<Rightarrow> real" where
  "monthly_rate inp = effective_rate_decimal inp / 12"

definition loan_term_months :: "loan_input \<Rightarrow> int" where
  "loan_term_months inp = effective_term inp * 12"

text \<open>Python's \<^verbatim>\<open>x ** n\<close> for a float \<open>x\<close> and an int \<open>n\<close> (here \<open>x > 1\<close>).\<close>

definition py_pow :: "real \<Rightarrow> int \<Rightarrow> real" where
  "py_pow x n = (if 0 \<le> n then x ^ nat n else 1 / x ^ nat (- n))"

text \<open>Python's \<^verbatim>\<open>/\<close> raises on a zero divisor.\<close>

definition py_div :: "real \<Rightarrow> real \<Rightarrow> py_error + real" where
  "py_div a b = (if b = 0 then Inl ZeroDivisionError else Inr (a / b))"

text \<open>
  The payment formula, written out identically in all three functions of the
  source.
\<close>

definition monthly_payment :: "real \<Rightarrow> real \<Rightarrow> int \<Rightarrow> py_error + real" where
  "monthly_payment L r n =
     (if r > 0
      then py_div (L * (r * py_pow (1 + r) n)) (py_pow (1 + r) n - 1)
      else py_div L (real_of_int n))"

text \<open>
  The payoff date: \<^verbatim>\<open>replace(year=...)\<close> comes first and may raise; the
  leap-day branch then tries \<^verbatim>\<open>replace(day=28)\<close> and ignores a failure.
\<close>

definition loan_payoff_date :: "date \<Rightarrow> int \<Rightarrow> py_error + date" where
  "loan_payoff_date sd term =
     (case replace_year sd (year sd + term) of
        Inl e \<Rightarrow> Inl e
      | Inr pd \<Rightarrow>
          if month sd = 2 \<and> day sd = 29
          then (case replace_day pd 28 of Inl e \<Rightarrow> Inr pd | Inr pd' \<Rightarrow> Inr pd')
          else Inr pd)"

text \<open>The body of the \<^verbatim>\<open>try\<close> block of \<^verbatim>\<open>calculate_mortgage\<close>.\<close>

definition calculate_mortgage_body :: "loan_input \<Rightarrow> py_error + results" where
  "calculate_mortgage_body inp =
     (let L = loan_amount inp;
          r = monthly_rate inp;
          n = loan_term_months inp
      in case monthly_payment L r n of
           Inl e \<Rightarrow> Inl e
         | Inr pay \<Rightarrow>
            (let pmi_monthly = (if L > 0 then L * (pmi_rate inp / 100) / 12 else 0);
                 property_tax_monthly =
                   (if property_tax inp > 0 then property_tax inp / 12 else 0);
                 home_insurance_monthly =
                   (if home_insurance inp > 0 then home_insurance inp / 12 else 0);
                 total_monthly_payment =
                   pay + property_tax_monthly + pmi_monthly + home_insurance_monthly
                     + hoa_fee inp;
                 total_payments = total_monthly_payment * real_of_int n;
                 total_interest_paid = pay * real_of_int n - L;
                 annual_payment = total_monthly_payment * 12
             in case loan_payoff_date (start_date inp) (effective_term inp) of
                  Inl e \<Rightarrow> Inl e
                | Inr pd \<Rightarrow>
                    Inr \<lparr>res_loan_amount = L,
                         res_monthly_payment_pi = pay,
                         res_total_monthly_payment = total_monthly_payment,
                         res_total_interest_paid = total_interest_paid,
                         res_loan_payoff_date = strftime_b_Y pd,
                         res_annual_payment = annual_payment,
                         res_total_payments = total_payments,
                         res_property_tax_monthly = property_tax_monthly,
                         res_pmi_monthly = pmi_monthly,
                         res_home_insurance_monthly = home_insurance_monthly,
                         res_hoa_fee = hoa_fee inp\<rparr>))"

text \<open>
  \<^verbatim>\<open>except Exception\<close>: the error is reported to the page and the function
  returns \<^verbatim>\<open>None\<close>.
\<close>

definition calculate_mortgage :: "loan_input \<Rightarrow> results option" where
  "calculate_mortgage inp =
     (case calculate_mortgage_body inp of Inl e \<Rightarrow> None | Inr res \<Rightarrow> Some res)"

section \<open>The yearly schedule\<close>

record yearly_row =
  yr_year :: int
  yr_date :: int
  yr_principal :: real
  yr_interest :: real
  yr_ending_balance :: real

text \<open>
  The inner loop \<^verbatim>\<open>for month in range(12)\<close>: the first argument counts the
  iterations left, the state is the balance with the year's interest and
  principal so far.
\<close>

fun year_months :: "nat \<Rightarrow> real \<Rightarrow> real \<Rightarrow> real \<times> real \<times> real \<Rightarrow> real \<times> real \<times> real" where
  "year_months 0 r pay (balance, yearly_interest, yearly_principal) =
     (balance, yearly_interest, yearly_principal)"
| "year_months (Suc k) r pay (balance, yearly_interest, yearly_principal) =
     (if balance \<le> 0 then (balance, yearly_interest, yearly_principal)
      else
        let interest_payment = balance * r;
            principal_payment = pay - interest_payment;
            balance1 = balance - principal_payment;
            principal_payment' =
              (if balance1 < 0 then principal_payment + balance1 else principal_payment);
            balance2 = (if balance1 < 0 then 0 else balance1)
        in year_months k r pay
             (balance2, yearly_interest + interest_payment,
              yearly_principal + principal_payment'))"

text \<open>The rows of zeros appended for the years after the payoff.\<close>

fun fill_remaining :: "date \<Rightarrow> int list \<Rightarrow> yearly_row list \<Rightarrow> py_error + yearly_row list" where
  "fill_remaining sd [] schedule_data = Inr schedule_data"
| "fill_remaining sd (remaining_year # ys) schedule_data =
     (case replace_year sd (year sd + remaining_year - 1) of
        Inl e \<Rightarrow> Inl e
      | Inr d \<Rightarrow>
          fill_remaining sd ys
            (schedule_data @
             [\<lparr>yr_year = remaining_year, yr_date = strftime_Y d, yr_principal = 0,
               yr_interest = 0, yr_ending_balance = 0\<rparr>]))"

text \<open>
  The outer loop \<^verbatim>\<open>for year in range(1, loan_term_years + 1)\<close>, over the
  years still to visit.
\<close>

fun yearly_loop ::
  "date \<Rightarrow> real \<Rightarrow> real \<Rightarrow> int \<Rightarrow> int list \<Rightarrow> real \<Rightarrow> yearly_row list
     \<Rightarrow> py_error + yearly_row list" where
  "yearly_loop sd r pay term [] balance schedule_data = Inr schedule_data"
| "yearly_loop sd r pay term (y # ys) balance schedule_data =
     (case year_months 12 r pay (balance, 0, 0) of
        (balance', yearly_interest, yearly_principal) \<Rightarrow>
          (case replace_year sd (year sd + y - 1) of
             Inl e \<Rightarrow> Inl e
           | Inr d \<Rightarrow>
               let schedule_data' = schedule_data @
                     [\<lparr>yr_year = y, yr_date = strftime_Y d,
                       yr_principal = yearly_principal,
                       yr_interest = yearly_interest,
                       yr_ending_balance = balance'\<rparr>]
               in if balance' \<le> 0
                  then fill_remaining sd [y + 1 .. term] schedule_data'
                  else yearly_loop sd r pay term ys balance' schedule_data'))"

definition generate_yearly_schedule_body :: "loan_input \<Rightarrow> py_error + yearly_row list" where
  "generate_yearly_schedule_body inp =
     (case calculate_mortgage inp of
        None \<Rightarrow> Inr []
      | Some res \<Rightarrow>
          (case monthly_payment (loan_amount inp) (monthly_rate inp) (loan_term_months inp) of
             Inl e \<Rightarrow> Inl e
           | Inr pay \<Rightarrow>
               yearly_loop (start_date inp) (monthly_rate inp) pay (effective_term inp)
                 [1 .. effective_term inp] (loan_amount inp) []))"

text \<open>\<^verbatim>\<open>except Exception\<close>: an empty data frame is returned.\<close>

definition generate_yearly_schedule :: "loan_input \<Rightarrow> yearly_row list" where
  "generate_yearly_schedule inp =
     (case generate_yearly_schedule_body inp of Inl e \<Rightarrow> [] | Inr rows \<Rightarrow> rows)"

section \<open>The monthly schedule\<close>

record monthly_row =
  mo_month :: int
  mo_date :: "string \<times> int"
  mo_principal :: real
  mo_interest :: real
  mo_ending_balance :: real

definition months_to_show :: "int \<Rightarrow> int list" where
  "months_to_show total_months =
     [1 .. min 13 (total_months + 1) - 1] @
     (if total_months > 12 then [max (total_months - 11) 13 .. total_months] else [])"

text \<open>The step to the next month at the end of an emitted iteration.\<close>

definition next_month :: "date \<Rightarrow> py_error + date" where
  "next_month d =
     (if month d = 12 then replace_year_month d (year d + 1) 1
      else replace_month d (month d + 1))"

text \<open>
  The loop \<^verbatim>\<open>for month in range(1, total_months + 1)\<close>, over the months still
  to visit. A month outside the window updates the balance and goes on
  (\<^verbatim>\<open>continue\<close>); a month of the window appends its row, moves the date and
  stops when the balance is used up.
\<close>

fun monthly_loop ::
  "int list \<Rightarrow> real \<Rightarrow> real \<Rightarrow> int list \<Rightarrow> real \<Rightarrow> date \<Rightarrow> monthly_row list
     \<Rightarrow> py_error + monthly_row list" where
  "monthly_loop shown r pay [] balance current_date schedule_data = Inr schedule_data"
| "monthly_loop shown r pay (m # ms) balance current_date schedule_data =
     (if m \<notin> set shown
      then
        let interest_payment = balance * r;
            principal_payment = pay - interest_payment;
            balance1 = balance - principal_payment;
            balance2 = (if balance1 < 0 then 0 else balance1)
        in monthly_loop shown r pay ms balance2 current_date schedule_data
      else
        let interest_payment = balance * r;
            principal_payment = pay - interest_payment;
            ending_balance = balance - principal_payment;
            principal_payment' =
              (if ending_balance < 0 then principal_payment + ending_balance
               else principal_payment);
            ending_balance' = (if ending_balance < 0 then 0 else ending_balance);
            schedule_data' = schedule_data @
              [\<lparr>mo_month = m, mo_date = strftime_b_Y current_date,
                mo_principal = principal_payment', mo_interest = interest_payment,
                mo_ending_balance = ending_balance'\<rparr>]
        in case next_month current_date of
             Inl e \<Rightarrow> Inl e
           | Inr current_date' \<Rightarrow>
               if ending_balance' \<le> 0 then Inr schedule_data'
               else monthly_loop shown r pay ms ending_balance' current_date' schedule_data')"

definition generate_monthly_schedule_body :: "loan_input \<Rightarrow> py_error + monthly_row list" where
  "generate_monthly_schedule_body inp =
     (case calculate_mortgage inp of
        None \<Rightarrow> Inr []
      | Some res \<Rightarrow>
          (case monthly_payment (loan_amount inp) (monthly_rate inp) (loan_term_months inp) of
             Inl e \<Rightarrow> Inl e
           | Inr pay \<Rightarrow>
               monthly_loop (months_to_show (loan_term_months inp)) (monthly_rate inp) pay
                 [1 .. loan_term_months inp] (loan_amount inp) (start_date inp) []))"

definition generate_monthly_schedule :: "loan_input \<Rightarrow> monthly_row list" where
  "generate_monthly_schedule inp =
     (case generate_monthly_schedule_body inp of Inl e \<Rightarrow> [] | Inr rows \<Rightarrow> rows)"

section \<open>Notions used in the statements\<close>

text \<open>
  The balance after one month, as both schedule loops compute it: the interest
  on the balance is taken out of the payment, the rest reduces the balance, and
  a negative result is replaced by zero.
\<close>

definition next_balance :: "real \<Rightarrow> real \<Rightarrow> real \<Rightarrow> real" where
  "next_balance r pay balance =
     (if balance - (pay - balance * r) < 0 then 0 else balance - (pay - balance * r))"


text \<open>The row the monthly loop appends for month \<open>m\<close>, reached with balance \<open>b\<close>.\<close>

definition emitted_row :: "int \<Rightarrow> date \<Rightarrow> real \<Rightarrow> real \<Rightarrow> real \<Rightarrow> monthly_row" where
  "emitted_row m d r pay b =
     \<lparr>mo_month = m, mo_date = strftime_b_Y d,
      mo_principal = (if b - (pay - b * r) < 0 then pay - b * r + (b - (pay - b * r))
                      else pay - b * r),
      mo_interest = b * r,
      mo_ending_balance = next_balance r pay b\<rparr>"

text \<open>
  The rows the monthly loop adds to its accumulator, as a function of the loop
  state; \<open>monthly_loop_rows\<close> below relates it to the loop.
\<close>

fun monthly_rows ::
  "int list \<Rightarrow> real \<Rightarrow> real \<Rightarrow> int list \<Rightarrow> real \<Rightarrow> date \<Rightarrow> py_error + monthly_row list" where
  "monthly_rows shown r pay [] b d = Inr []"
| "monthly_rows shown r pay (m # ms) b d =
     (if m \<notin> set shown then monthly_rows shown r pay ms (next_balance r pay b) d
      else case next_month d of
             Inl e \<Rightarrow> Inl e
           | Inr d' \<Rightarrow>
               if next_balance r pay b \<le> 0 then Inr [emitted_row m d r pay b]
               else (case monthly_rows shown r pay ms (next_balance r pay b) d' of
                       Inl e \<Rightarrow> Inl e
                     | Inr rows \<Rightarrow> Inr (emitted_row m d r pay b # rows)))"


section \<open>Example inputs\<close>

text \<open>The values the page starts with, and variations of them.\<close>

definition base_input :: loan_input where
  "base_input =
     \<lparr>home_value = 400000, down_payment = 80000, interest_rate = 7, loan_term_years = 30,
      start_date = \<lparr>year = 2024, month = 1, day = 15\<rparr>, property_tax = 3000, pmi_rate = 0,
      home_insurance = 1500, hoa_fee = 0, override_rate = None, override_term = None\<rparr>"

definition zero_term_input :: loan_input where
  "zero_term_input = base_input\<lparr>loan_term_years := 0\<rparr>"

definition negative_term_input :: loan_input where
  "negative_term_input = base_input\<lparr>interest_rate := 0, loan_term_years := - 1\<rparr>"

definition zero_rate_input :: loan_input where
  "zero_rate_input = base_input\<lparr>interest_rate := 0\<rparr>"

definition leap_day_one_year_input :: loan_input where
  "leap_day_one_year_input =
     base_input\<lparr>loan_term_years := 1, start_date := \<lparr>year = 2024, month = 2, day = 29\<rparr>\<rparr>"



definition leap_day_four_years_input :: loan_input where
  "leap_day_four_years_input =
     base_input\<lparr>interest_rate := 0, loan_term_years := 4,
       start_date := \<lparr>year = 2024, month = 2, day = 29\<rparr>\<rparr>"


definition three_year_input :: loan_input where
  "three_year_input =
     base_input\<lparr>home_value := 36000, down_payment := 0, interest_rate := 0,
       loan_term_years := 3\<rparr>"

definition month_end_input :: loan_input where
  "month_end_input = three_year_input\<lparr>start_date := \<lparr>year = 2024, month = 1, day = 31\<rparr>\<rparr>"

section \<open>Evaluation rules\<close>

lemmas date_defs = make_date_def valid_date_def days_in_month_def is_leap_def replace_year_def
  replace_month_def replace_day_def replace_year_month_def strftime_b_Y_def strftime_Y_def
  next_month_def month_abbr_def

lemmas input_defs = effective_term_def effective_rate_decimal_def loan_amount_def
  monthly_rate_def loan_term_months_def


lemma upto_one_numeral: "[1 .. numeral n] = 1 # [2 .. numeral n]"
  by (subst upto_rec1) simp_all

section \<open>The summary\<close>

lemma monthly_payment_zero_months: "monthly_payment L r 0 = Inl ZeroDivisionError"
  by (simp add: monthly_payment_def py_div_def py_pow_def)

lemma zero_term_fails: "calculate_mortgage zero_term_input = None"
  by (simp add: calculate_mortgage_def calculate_mortgage_body_def monthly_payment_def
      py_div_def py_pow_def input_defs zero_term_input_def base_input_def)

lemma leap_day_summary_fails:
  assumes "month (start_date inp) = 2" and "day (start_date inp) = 29"
    and "\<not> is_leap (year (start_date inp) + effective_term inp)"
  shows "calculate_mortgage inp = None"
proof -
  have "loan_payoff_date (start_date inp) (effective_term inp) = Inl ValueError"
    using assms
    by (simp add: loan_payoff_date_def replace_year_def make_date_def valid_date_def
        days_in_month_def)
  then show ?thesis
    by (simp add: calculate_mortgage_def calculate_mortgage_body_def Let_def split: sum.splits)
qed

text \<open>
  C5. The claim: the payoff date is the start date with the year advanced by the
  effective term, a 29 February being moved to 28 February when the target year
  has no such day, so that 29 February 2024 with a term of one year gives
  28 February 2025. The program calls \<^verbatim>\<open>replace(year=...)\<close> on the unchanged
  start date before it looks at the leap day: for a start on 29 February and a
  target year that is not a leap year that call raises, the handler catches it,
  and the summary is \<^verbatim>\<open>None\<close>.
\<close>

theorem leap_day_payoff_fails:
  assumes "month (start_date inp) = 2" and "day (start_date inp) = 29"
    and "\<not> is_leap (year (start_date inp) + effective_term inp)"
  shows "calculate_mortgage inp = None"
  using assms by (rule leap_day_summary_fails)

theorem leap_day_payoff_fails_witness:
  "start_date leap_day_one_year_input = \<lparr>year = 2024, month = 2, day = 29\<rparr> \<and>
   effective_term leap_day_one_year_input = 1 \<and>
   calculate_mortgage leap_day_one_year_input = None"
proof -
  have h: "start_date leap_day_one_year_input = \<lparr>year = 2024, month = 2, day = 29\<rparr>"
      "effective_term leap_day_one_year_input = 1"
    by (simp_all add: effective_term_def leap_day_one_year_input_def base_input_def)
  have "\<not> is_leap (year (start_date leap_day_one_year_input)
          + effective_term leap_day_one_year_input)"
    by (simp add: h is_leap_def)
  with leap_day_payoff_fails [of leap_day_one_year_input] h show ?thesis by simp
qed

text \<open>
  C7, as the claim states it: an effective term of zero or less makes the
  summary fail. With a term of \<open>-1\<close> year the program divides by \<open>-12\<close>
  months, moves the payoff date one year back and returns a summary.
\<close>

theorem negative_term_accepted:
  "effective_term negative_term_input \<le> 0 \<and>
   calculate_mortgage negative_term_input =
     Some \<lparr>res_loan_amount = 320000, res_monthly_payment_pi = - (80000 / 3),
           res_total_monthly_payment = - (80000 / 3) + 375,
           res_total_interest_paid = 0,
           res_loan_payoff_date = (''Jan'', 2023),
           res_annual_payment = (- (80000 / 3) + 375) * 12,
           res_total_payments = (- (80000 / 3) + 375) * (- 12),
           res_property_tax_monthly = 250, res_pmi_monthly = 0,
           res_home_insurance_monthly = 125, res_hoa_fee = 0\<rparr>"
  by (simp add: calculate_mortgage_def calculate_mortgage_body_def monthly_payment_def
      py_div_def loan_payoff_date_def input_defs negative_term_input_def base_input_def date_defs)

text \<open>
  C7, amended: an effective term of exactly zero makes the summary fail. The
  division by the number of months raises \<^verbatim>\<open>ZeroDivisionError\<close> in either
  branch of the payment formula, the handler catches it, and the result is
  \<^verbatim>\<open>None\<close>: no partial summary.
\<close>

theorem zero_term_rejected:
  assumes "effective_term inp = 0"
  shows "calculate_mortgage_body inp = Inl ZeroDivisionError \<and> calculate_mortgage inp = None"
  using assms
  by (simp add: calculate_mortgage_def calculate_mortgage_body_def loan_term_months_def
      monthly_payment_zero_months)

theorem zero_term_rejected_witness:
  "effective_term zero_term_input = 0 \<and>
   calculate_mortgage_body zero_term_input = Inl ZeroDivisionError \<and>
   calculate_mortgage zero_term_input = None"
proof -
  have h: "effective_term zero_term_input = 0"
    by (simp add: effective_term_def zero_term_input_def base_input_def)
  from zero_term_rejected [OF h] h show ?thesis by simp
qed

text \<open>
  C10. With an effective annual rate of zero and an effective term of at least
  one year, the payment is the loan amount divided by the number of months and
  the total interest paid is exactly zero. The summary exists unless the payoff
  date raises.
\<close>

theorem zero_rate_no_interest:
  assumes "effective_rate_decimal inp = 0" and "1 \<le> effective_term inp"
  shows "case calculate_mortgage inp of
           None \<Rightarrow> isl (loan_payoff_date (start_date inp) (effective_term inp))
         | Some res \<Rightarrow>
             res_monthly_payment_pi res = loan_amount inp / real_of_int (loan_term_months inp) \<and>
             res_total_interest_paid res = 0"
  using assms
  by (simp add: calculate_mortgage_def calculate_mortgage_body_def monthly_payment_def
      py_div_def monthly_rate_def loan_term_months_def Let_def split: sum.splits)

theorem zero_rate_no_interest_witness:
  "effective_rate_decimal zero_rate_input = 0 \<and> 1 \<le> effective_term zero_rate_input \<and>
   calculate_mortgage zero_rate_input \<noteq> None \<and>
   res_total_interest_paid (the (calculate_mortgage zero_rate_input)) = 0"
proof -
  have h1: "effective_rate_decimal zero_rate_input = 0"
    by (simp add: effective_rate_decimal_def zero_rate_input_def base_input_def)
  have h2: "1 \<le> effective_term zero_rate_input"
    by (simp add: effective_term_def zero_rate_input_def base_input_def)
  have h3: "calculate_mortgage zero_rate_input \<noteq> None"
    by (simp add: calculate_mortgage_def calculate_mortgage_body_def monthly_payment_def
      py_div_def loan_payoff_date_def input_defs zero_rate_input_def base_input_def date_defs)
  from zero_rate_no_interest [OF h1 h2] h1 h2 h3 show ?thesis by auto
qed

section \<open>The summary of the default input\<close>

lemma power_interval:
  fixes x :: real
  assumes "l \<le> x \<and> x \<le> u" and "0 \<le> l" and "l' \<le> l ^ k" and "u ^ k \<le> u'"
  shows "l' \<le> x ^ k \<and> x ^ k \<le> u'"
proof -
  have "l ^ k \<le> x ^ k" using assms(1,2) by (intro power_mono) simp_all
  moreover have "x ^ k \<le> u ^ k" using assms(1,2) by (intro power_mono) simp_all
  ultimately show ?thesis using assms(3,4) by linarith
qed

lemma growth_factor_30_years:
  fixes q :: real
  assumes "q = 1207 / 1200"
  shows "8116497475359110 / 1000000000000000 \<le> q ^ 360 \<and> q ^ 360 \<le> 8116497475359886 / 1000000000000000"
proof -
  have b5: "1029508935194350 / 1000000000000000 \<le> q ^ 5 \<and> q ^ 5 \<le> 1029508935194351 / 1000000000000000"
    unfolding assms by (simp add: power_divide)
  have "1091164833061588 / 1000000000000000 \<le> (q ^ 5) ^ 3 \<and> (q ^ 5) ^ 3 \<le> 1091164833061592 / 1000000000000000"
    by (rule power_interval [OF b5]) (simp_all add: power_divide)
  then have b15: "1091164833061588 / 1000000000000000 \<le> q ^ 15 \<and> q ^ 15 \<le> 1091164833061592 / 1000000000000000"
    by (simp only: power_mult [symmetric]) simp
  have "1299185252915826 / 1000000000000000 \<le> (q ^ 15) ^ 3 \<and> (q ^ 15) ^ 3 \<le> 1299185252915841 / 1000000000000000"
    by (rule power_interval [OF b15]) (simp_all add: power_divide)
  then have b45: "1299185252915826 / 1000000000000000 \<le> q ^ 45 \<and> q ^ 45 \<le> 1299185252915841 / 1000000000000000"
    by (simp only: power_mult [symmetric]) simp
  have "1687882321393958 / 1000000000000000 \<le> (q ^ 45) ^ 2 \<and> (q ^ 45) ^ 2 \<le> 1687882321393998 / 1000000000000000"
    by (rule power_interval [OF b45]) (simp_all add: power_divide)
  then have b90: "1687882321393958 / 1000000000000000 \<le> q ^ 90 \<and> q ^ 90 \<le> 1687882321393998 / 1000000000000000"
    by (simp only: power_mult [symmetric]) simp
  have "2848946730874256 / 1000000000000000 \<le> (q ^ 90) ^ 2 \<and> (q ^ 90) ^ 2 \<le> 2848946730874392 / 1000000000000000"
    by (rule power_interval [OF b90]) (simp_all add: power_divide)
  then have b180: "2848946730874256 / 1000000000000000 \<le> q ^ 180 \<and> q ^ 180 \<le> 2848946730874392 / 1000000000000000"
    by (simp only: power_mult [symmetric]) simp
  have "8116497475359110 / 1000000000000000 \<le> (q ^ 180) ^ 2 \<and> (q ^ 180) ^ 2 \<le> 8116497475359886 / 1000000000000000"
    by (rule power_interval [OF b180]) (simp_all add: power_divide)
  then have b360: "8116497475359110 / 1000000000000000 \<le> q ^ 360 \<and> q ^ 360 \<le> 8116497475359886 / 1000000000000000"
    by (simp only: power_mult [symmetric]) simp
  from b360 show ?thesis .
qed


lemma base_input_payment:
  fixes q :: real
  assumes "q = 1207 / 1200"
  shows "monthly_payment (loan_amount base_input) (monthly_rate base_input)
           (loan_term_months base_input) = Inr (5600 / 3 * q ^ 360 / (q ^ 360 - 1))"
proof -
  have r: "monthly_rate base_input = q - 1"
    unfolding assms by (simp add: base_input_def input_defs)
  have L: "loan_amount base_input = 320000"
    by (simp add: base_input_def input_defs)
  have n: "loan_term_months base_input = 360"
    by (simp add: base_input_def input_defs)
  have q: "0 < q - 1" and q7: "q - 1 = 7 / 1200" unfolding assms by simp_all
  have Q: "q ^ 360 - 1 \<noteq> 0"
    using growth_factor_30_years [OF assms] by linarith
  have "monthly_payment 320000 (q - 1) 360 =
      Inr (320000 * ((q - 1) * q ^ 360) / (q ^ 360 - 1))"
    using q Q by (simp add: monthly_payment_def py_div_def py_pow_def)
  also have "320000 * ((q - 1) * q ^ 360) = 5600 / 3 * q ^ 360"
    by (simp only: q7)
  finally show ?thesis by (simp only: r L n)
qed

lemma base_input_payment_bounds:
  fixes q :: real
  assumes "q = 1207 / 1200"
  shows "212896798 / 100000 < 5600 / 3 * q ^ 360 / (q ^ 360 - 1) \<and>
         5600 / 3 * q ^ 360 / (q ^ 360 - 1) < 212896799 / 100000"
proof -
  define Q where "Q = q ^ 360"
  have b: "811649747535911 / 100000000000000 \<le> Q" "Q \<le> 811649747535989 / 100000000000000"
    using growth_factor_30_years [OF assms] unfolding Q_def by simp_all
  have pos: "0 < Q - 1" using b(1) by linarith
  have "212896798 / 100000 * (Q - 1) < 5600 / 3 * Q"
    using b by (simp add: right_diff_distrib)
  then have lower: "212896798 / 100000 < 5600 / 3 * Q / (Q - 1)"
    using pos by (simp only: pos_less_divide_eq)
  have "5600 / 3 * Q < 212896799 / 100000 * (Q - 1)"
    using b by (simp add: right_diff_distrib)
  then have upper: "5600 / 3 * Q / (Q - 1) < 212896799 / 100000"
    using pos by (simp only: pos_divide_less_eq)
  from lower upper show ?thesis unfolding Q_def by blast
qed


lemma base_input_summary:
  fixes q :: real
  assumes "q = 1207 / 1200"
  shows "\<exists>res. calculate_mortgage base_input = Some res \<and> res_loan_amount res = 320000 \<and>
           res_monthly_payment_pi res = 5600 / 3 * q ^ 360 / (q ^ 360 - 1) \<and>
           res_total_monthly_payment res = 5600 / 3 * q ^ 360 / (q ^ 360 - 1) + 375"
  apply (simp only: calculate_mortgage_def calculate_mortgage_body_def Let_def
      base_input_payment [OF assms])
  apply (simp add: base_input_def loan_payoff_date_def date_defs loan_amount_def
      effective_term_def loan_term_months_def)
  done

text \<open>
  C6, amended: for a home value of 400000, a down payment of 80000, a rate of
  7 percent, a term of 30 years, a property tax of 3000 and an insurance of 1500
  a year, no PMI and no HOA fee, the summary has a loan amount of 320000, a
  monthly payment of principal and interest of 2128.97 and a total monthly
  payment of 2503.97, each to the nearest cent.
\<close>

theorem default_input_summary:
  "case calculate_mortgage base_input of
     None \<Rightarrow> False
   | Some res \<Rightarrow>
       res_loan_amount res = 320000 \<and>
       \<bar>res_monthly_payment_pi res - 212897 / 100\<bar> < 5 / 1000 \<and>
       \<bar>res_total_monthly_payment res - 250397 / 100\<bar> < 5 / 1000"
proof -
  define q :: real where "q = 1207 / 1200"
  from base_input_summary [OF q_def] obtain res where
    res: "calculate_mortgage base_input = Some res" "res_loan_amount res = 320000"
      "res_monthly_payment_pi res = 5600 / 3 * q ^ 360 / (q ^ 360 - 1)"
      "res_total_monthly_payment res = 5600 / 3 * q ^ 360 / (q ^ 360 - 1) + 375"
    by blast
  from base_input_payment_bounds [OF q_def] res(3,4)
  have "\<bar>res_monthly_payment_pi res - 212897 / 100\<bar> < 5 / 1000"
    and "\<bar>res_total_monthly_payment res - 250397 / 100\<bar> < 5 / 1000"
    by (simp_all only: abs_less_iff) linarith+
  with res(1,2) show ?thesis by simp
qed

text \<open>
  C6, as the claim states it: a total monthly payment of about 2503.47. The
  total is the payment of 2128.97 plus 250 of tax and 125 of insurance a month:
  it is half a unit away from 2503.47.
\<close>

theorem default_input_total_differs:
  "case calculate_mortgage base_input of
     None \<Rightarrow> False
   | Some res \<Rightarrow> 49 / 100 < \<bar>res_total_monthly_payment res - 250347 / 100\<bar>"
proof -
  define q :: real where "q = 1207 / 1200"
  from base_input_summary [OF q_def] obtain res where
    res: "calculate_mortgage base_input = Some res"
      "res_total_monthly_payment res = 5600 / 3 * q ^ 360 / (q ^ 360 - 1) + 375"
    by blast
  from base_input_payment_bounds [OF q_def] res(2)
  have "49 / 100 < \<bar>res_total_monthly_payment res - 250347 / 100\<bar>"
    by linarith
  with res(1) show ?thesis by simp
qed

section \<open>The schedules\<close>

text \<open>
  C8. When the summary fails, both schedule functions return the empty data
  frame from the \<^verbatim>\<open>if not results\<close> branch: the body of the \<^verbatim>\<open>try\<close> block
  ends normally, with no rows.
\<close>

theorem schedules_empty_when_summary_fails:
  assumes "calculate_mortgage inp = None"
  shows "generate_yearly_schedule_body inp = Inr [] \<and> generate_yearly_schedule inp = [] \<and>
         generate_monthly_schedule_body inp = Inr [] \<and> generate_monthly_schedule inp = []"
  using assms
  by (simp add: generate_yearly_schedule_def generate_yearly_schedule_body_def
      generate_monthly_schedule_def generate_monthly_schedule_body_def)

theorem schedules_empty_when_summary_fails_witness:
  "calculate_mortgage zero_term_input = None \<and>
   generate_yearly_schedule zero_term_input = [] \<and>
   generate_monthly_schedule zero_term_input = []"
  using schedules_empty_when_summary_fails [OF zero_term_fails] zero_term_fails by simp

section \<open>Balances\<close>





lemma fill_remaining_balances:
  "fill_remaining sd ys acc = Inr res \<Longrightarrow>
     map yr_ending_balance res = map yr_ending_balance acc @ replicate (length ys) 0"
proof (induction ys arbitrary: acc)
  case Nil
  then show ?case by simp
next
  case (Cons y ys)
  from Cons.prems obtain d where d: "replace_year sd (year sd + y - 1) = Inr d"
    by (cases "replace_year sd (year sd + y - 1)") simp_all
  let ?row = "\<lparr>yr_year = y, yr_date = strftime_Y d, yr_principal = 0,
                yr_interest = 0, yr_ending_balance = 0\<rparr>"
  have "fill_remaining sd ys (acc @ [?row]) = Inr res"
    using Cons.prems d by simp
  from Cons.IH [OF this] show ?case
    by (simp add: replicate_append_same)
qed

lemma yearly_loop_Cons:
  assumes "year_months 12 r pay (b, 0, 0) = (b', yi, yp)"
    and "replace_year sd (year sd + y - 1) = Inr d"
  shows "yearly_loop sd r pay term (y # ys) b acc =
     (if b' \<le> 0
      then fill_remaining sd [y + 1 .. term]
             (acc @ [\<lparr>yr_year = y, yr_date = strftime_Y d, yr_principal = yp,
                       yr_interest = yi, yr_ending_balance = b'\<rparr>])
      else yearly_loop sd r pay term ys b'
             (acc @ [\<lparr>yr_year = y, yr_date = strftime_Y d, yr_principal = yp,
                       yr_interest = yi, yr_ending_balance = b'\<rparr>]))"
  using assms by (simp add: Let_def)

lemma yearly_loop_label_fails:
  assumes "replace_year sd (year sd + y - 1) = Inl e"
  shows "yearly_loop sd r pay term (y # ys) b acc = Inl e"
  using assms by (simp split: prod.splits)



lemma monthly_loop_rows:
  "monthly_loop shown r pay ms b d acc =
     (case monthly_rows shown r pay ms b d of Inl e \<Rightarrow> Inl e | Inr rows \<Rightarrow> Inr (acc @ rows))"
proof (induction ms arbitrary: b d acc)
  case Nil
  then show ?case by simp
next
  case (Cons m ms)
  show ?case
  proof (cases "m \<in> set shown")
    case False
    then show ?thesis
      using Cons.IH [of "next_balance r pay b" d acc]
      by (simp add: Let_def next_balance_def)
  next
    case True
    show ?thesis
    proof (cases "next_month d")
      case (Inl e)
      with True show ?thesis by (simp add: Let_def)
    next
      case (Inr d')
      show ?thesis
        using True Inr Cons.IH [of "next_balance r pay b" d' "acc @ [emitted_row m d r pay b]"]
        by (simp add: Let_def next_balance_def emitted_row_def split: sum.splits)
    qed
  qed
qed





lemma generate_monthly_schedule_rows:
  "generate_monthly_schedule inp =
     (case calculate_mortgage inp of
        None \<Rightarrow> []
      | Some summary \<Rightarrow>
          (case monthly_payment (loan_amount inp) (monthly_rate inp) (loan_term_months inp) of
             Inl e \<Rightarrow> []
           | Inr pay \<Rightarrow>
               (case monthly_rows (months_to_show (loan_term_months inp)) (monthly_rate inp) pay
                       [1 .. loan_term_months inp] (loan_amount inp) (start_date inp) of
                  Inl e \<Rightarrow> []
                | Inr rows \<Rightarrow> rows)))"
  by (simp add: generate_monthly_schedule_def generate_monthly_schedule_body_def
      monthly_loop_rows split: option.splits sum.splits)






section \<open>The length of the yearly schedule\<close>

lemma leap_day_next_year:
  assumes "valid_date sd" and "month sd = 2" and "day sd = 29"
  shows "\<not> is_leap (year sd + 1)" and "replace_year sd (year sd + 1 - 1) = Inr sd"
    and "replace_year sd (year sd + 2 - 1) = Inl ValueError"
proof -
  have leap: "is_leap (year sd)"
    using assms by (simp add: valid_date_def days_in_month_def split: if_splits)
  then have "year sd mod 4 = 0" by (simp add: is_leap_def)
  then have "(year sd + 1) mod 4 \<noteq> 0" by presburger
  then show nl: "\<not> is_leap (year sd + 1)" by (simp add: is_leap_def)
  show "replace_year sd (year sd + 1 - 1) = Inr sd"
    using assms(1) by (cases sd) (simp add: replace_year_def make_date_def)
  have nl': "\<not> is_leap (1 + year sd)"
    using nl by (simp add: add.commute)
  show "replace_year sd (year sd + 2 - 1) = Inl ValueError"
    using nl' assms(2,3)
    by (simp add: replace_year_def make_date_def valid_date_def days_in_month_def)
qed

lemma yearly_loop_leap_day:
  assumes "valid_date sd" and "month sd = 2" and "day sd = 29" and "2 \<le> term"
  shows "yearly_loop sd r pay term [1 .. term] b [] = Inl ValueError"
proof -
  note ld = leap_day_next_year [OF assms(1-3)]
  have years: "[1 .. term] = 1 # 2 # [3 .. term]"
    using assms(4) by (simp add: upto_rec1 [of 1] upto_rec1 [of 2])
  have rest: "[1 + 1 .. term] = 2 # [3 .. term]"
    using assms(4) by (simp add: upto_rec1 [of 2])
  obtain b' yi yp where ym: "year_months 12 r pay (b, 0, 0) = (b', yi, yp)"
    by (cases "year_months 12 r pay (b, 0, 0)") auto
  note step = yearly_loop_Cons [OF ym ld(2)]
  show ?thesis
  proof (cases "b' \<le> 0")
    case True
    then show ?thesis unfolding years step using ld(3) rest by simp
  next
    case False
    then show ?thesis unfolding years step using yearly_loop_label_fails [OF ld(3)] by simp
  qed
qed

text \<open>
  C2. The claim: whenever the summary succeeds the yearly schedule has exactly
  as many rows as the effective term has years. For a start date on
  29 February the label of the second year is \<^verbatim>\<open>replace(year=...)\<close> on a
  year that is not a leap year: it raises, the handler returns the empty data
  frame, and the schedule has no rows, whatever the term and the amounts.
\<close>

theorem leap_day_yearly_schedule_empty:
  assumes "valid_date (start_date inp)"
    and "month (start_date inp) = 2" and "day (start_date inp) = 29"
  shows "generate_yearly_schedule inp = []"
proof -
  consider "effective_term inp \<le> 0" | "effective_term inp = 1" | "2 \<le> effective_term inp"
    by linarith
  then show ?thesis
  proof cases
    case 1
    then have "[1 .. effective_term inp] = []" by simp
    then show ?thesis
      by (simp add: generate_yearly_schedule_def generate_yearly_schedule_body_def
          split: option.splits sum.splits)
  next
    case 2
    have "\<not> is_leap (year (start_date inp) + effective_term inp)"
      using leap_day_next_year(1) [OF assms] 2 by simp
    from leap_day_summary_fails [OF assms(2,3) this] show ?thesis
      by (simp add: generate_yearly_schedule_def generate_yearly_schedule_body_def)
  next
    case 3
    from yearly_loop_leap_day [OF assms this] show ?thesis
      by (simp add: generate_yearly_schedule_def generate_yearly_schedule_body_def
          split: option.splits sum.splits)
  qed
qed

theorem leap_day_yearly_schedule_empty_witness:
  "valid_date (start_date leap_day_four_years_input) \<and>
   start_date leap_day_four_years_input = \<lparr>year = 2024, month = 2, day = 29\<rparr> \<and>
   effective_term leap_day_four_years_input = 4 \<and>
   map_option res_loan_payoff_date (calculate_mortgage leap_day_four_years_input)
     = Some (''Feb'', 2028) \<and>
   generate_yearly_schedule leap_day_four_years_input = []"
proof -
  have sd: "start_date leap_day_four_years_input = \<lparr>year = 2024, month = 2, day = 29\<rparr>"
    by (simp add: leap_day_four_years_input_def base_input_def)
  have v: "valid_date (start_date leap_day_four_years_input)"
    by (simp add: sd valid_date_def days_in_month_def is_leap_def)
  have t: "effective_term leap_day_four_years_input = 4"
    by (simp add: effective_term_def leap_day_four_years_input_def base_input_def)
  have s: "map_option res_loan_payoff_date (calculate_mortgage leap_day_four_years_input)
     = Some (''Feb'', 2028)"
    by (simp add: calculate_mortgage_def calculate_mortgage_body_def monthly_payment_def
      py_div_def loan_payoff_date_def input_defs leap_day_four_years_input_def base_input_def
      date_defs)
  from leap_day_yearly_schedule_empty [OF v] sd v t s show ?thesis by simp
qed

text \<open>
  When no label raises, the yearly schedule has one row for each year of the
  term.
\<close>

lemma yearly_loop_length:
  assumes "yearly_loop sd r pay term [j .. term] b acc = Inr res"
  shows "length res = length acc + length [j .. term]"
  using assms
proof (induction "nat (term - j + 1)" arbitrary: j b acc)
  case 0
  then have "[j .. term] = []" by simp
  with "0.prems" show ?case by simp
next
  case (Suc k)
  then have le: "j \<le> term" by linarith
  then have years: "[j .. term] = j # [j + 1 .. term]" by (simp add: upto_rec1)
  obtain b' yi yp where ym: "year_months 12 r pay (b, 0, 0) = (b', yi, yp)"
    by (cases "year_months 12 r pay (b, 0, 0)") auto
  obtain d where d: "replace_year sd (year sd + j - 1) = Inr d"
  proof (cases "replace_year sd (year sd + j - 1)")
    case (Inl e)
    from yearly_loop_label_fails [OF this] Suc.prems show ?thesis
      unfolding years by simp
  next
    case (Inr d)
    then show ?thesis by (rule that)
  qed
  let ?row = "\<lparr>yr_year = j, yr_date = strftime_Y d, yr_principal = yp,
                yr_interest = yi, yr_ending_balance = b'\<rparr>"
  note step = yearly_loop_Cons [OF ym d]
  show ?case
  proof (cases "b' \<le> 0")
    case True
    then have "fill_remaining sd [j + 1 .. term] (acc @ [?row]) = Inr res"
      using Suc.prems step unfolding years by simp
    from fill_remaining_balances [OF this]
    have "length (map yr_ending_balance res) =
        length (map yr_ending_balance (acc @ [?row]) @ replicate (length [j + 1 .. term]) (0::real))"
      by simp
    then show ?thesis unfolding years by simp
  next
    case False
    then have rec: "yearly_loop sd r pay term [j + 1 .. term] b' (acc @ [?row]) = Inr res"
      using Suc.prems step unfolding years by simp
    have "k = nat (term - (j + 1) + 1)" using Suc.hyps(2) by linarith
    from Suc.hyps(1) [OF this rec] show ?thesis unfolding years by simp
  qed
qed

lemma yearly_schedule_row_count:
  assumes "generate_yearly_schedule_body inp = Inr rows" and "calculate_mortgage inp \<noteq> None"
    and "0 \<le> effective_term inp"
  shows "int (length rows) = effective_term inp"
proof -
  from assms(1,2) obtain pay where
    "yearly_loop (start_date inp) (monthly_rate inp) pay (effective_term inp)
       [1 .. effective_term inp] (loan_amount inp) [] = Inr rows"
    by (auto simp: generate_yearly_schedule_body_def split: option.splits sum.splits)
  from yearly_loop_length [OF this] assms(3) show ?thesis by simp
qed

section \<open>The rows of the monthly schedule\<close>

lemma monthly_rows_date_fails:
  "m \<in> set shown \<Longrightarrow> next_month d = Inl e \<Longrightarrow> monthly_rows shown r pay (m # ms) b d = Inl e"
  by simp






lemma months_to_show_short:
  "n \<le> 12 \<Longrightarrow> months_to_show n = [1 .. n]"
  by (simp add: months_to_show_def min_def)

lemma months_to_show_long:
  "12 < n \<Longrightarrow> months_to_show n = [1 .. 12] @ [max (n - 11) 13 .. n]"
  by (simp add: months_to_show_def min_def)

lemma months_to_show_set:
  "set (months_to_show n) =
     {1 .. min 12 n} \<union> (if 12 < n then {max (n - 11) 13 .. n} else {})"
proof (cases "12 < n")
  case True
  then show ?thesis by (simp add: months_to_show_long min_def)
next
  case False
  then show ?thesis by (simp add: months_to_show_short min_def)
qed













lemma monthly_schedule_cases:
  obtains (empty) "generate_monthly_schedule inp = []"
  | (rows) pay rows where
      "monthly_payment (loan_amount inp) (monthly_rate inp) (loan_term_months inp) = Inr pay"
      "monthly_rows (months_to_show (loan_term_months inp)) (monthly_rate inp) pay
         [1 .. loan_term_months inp] (loan_amount inp) (start_date inp) = Inr rows"
      "generate_monthly_schedule inp = rows"
proof (cases "calculate_mortgage inp")
  case None
  then have "generate_monthly_schedule inp = []"
    by (simp add: generate_monthly_schedule_rows)
  then show ?thesis by (rule empty)
next
  case (Some summary)
  show ?thesis
  proof (cases "monthly_payment (loan_amount inp) (monthly_rate inp) (loan_term_months inp)")
    case (Inl e)
    with Some have "generate_monthly_schedule inp = []"
      by (simp add: generate_monthly_schedule_rows)
    then show ?thesis by (rule empty)
  next
    case pay: (Inr pay)
    show ?thesis
    proof (cases "monthly_rows (months_to_show (loan_term_months inp)) (monthly_rate inp) pay
         [1 .. loan_term_months inp] (loan_amount inp) (start_date inp)")
      case (Inl e)
      with Some pay have "generate_monthly_schedule inp = []"
        by (simp add: generate_monthly_schedule_rows)
      then show ?thesis by (rule empty)
    next
      case (Inr rs)
      with Some pay have "generate_monthly_schedule inp = rs"
        by (simp add: generate_monthly_schedule_rows)
      with pay Inr show ?thesis by (rule rows)
    qed
  qed
qed





lemmas monthly_eval_defs = generate_monthly_schedule_rows calculate_mortgage_def
  calculate_mortgage_body_def monthly_payment_def py_div_def py_pow_def loan_payoff_date_def
  months_to_show_def next_balance_def emitted_row_def Let_def

lemma three_year_schedule:
  "map (\<lambda>row. (mo_month row, mo_date row, mo_ending_balance row))
     (generate_monthly_schedule three_year_input) =
     [(1, (''Jan'', 2024), 35000),
      (2, (''Feb'', 2024), 34000),
      (3, (''Mar'', 2024), 33000),
      (4, (''Apr'', 2024), 32000),
      (5, (''May'', 2024), 31000),
      (6, (''Jun'', 2024), 30000),
      (7, (''Jul'', 2024), 29000),
      (8, (''Aug'', 2024), 28000),
      (9, (''Sep'', 2024), 27000),
      (10, (''Oct'', 2024), 26000),
      (11, (''Nov'', 2024), 25000),
      (12, (''Dec'', 2024), 24000),
      (25, (''Jan'', 2025), 11000),
      (26, (''Feb'', 2025), 10000),
      (27, (''Mar'', 2025), 9000),
      (28, (''Apr'', 2025), 8000),
      (29, (''May'', 2025), 7000),
      (30, (''Jun'', 2025), 6000),
      (31, (''Jul'', 2025), 5000),
      (32, (''Aug'', 2025), 4000),
      (33, (''Sep'', 2025), 3000),
      (34, (''Oct'', 2025), 2000),
      (35, (''Nov'', 2025), 1000),
      (36, (''Dec'', 2025), 0)]"
  by (simp add: monthly_eval_defs three_year_input_def base_input_def input_defs date_defs
      upto_one_numeral)







lemma monthly_schedule_empty_when_date_fails:
  assumes "next_month (start_date inp) = Inl e"
  shows "generate_monthly_schedule inp = []"
proof (cases inp rule: monthly_schedule_cases)
  case empty
  then show ?thesis .
next
  case (rows pay rows)
  show ?thesis
  proof (cases "1 \<le> loan_term_months inp")
    case False
    then have "[1 .. loan_term_months inp] = []" by simp
    with rows(2,3) show ?thesis by simp
  next
    case True
    then have "[1 .. loan_term_months inp] = 1 # [2 .. loan_term_months inp]"
      by (simp add: upto_rec1)
    moreover have "1 \<in> set (months_to_show (loan_term_months inp))"
      using True by (simp add: months_to_show_set)
    ultimately show ?thesis
      using rows(2) monthly_rows_date_fails [OF _ assms] by simp
  qed
qed

text \<open>
  C9. The claim: the date label of every row is the start date moved forward
  month by month. The loop moves its date only after a row it has appended; the
  months outside the window leave through \<^verbatim>\<open>continue\<close> before that. For a loan
  of three years from 15 January 2024 the rows of the months 25 to 36 are
  labelled January to December 2025, twelve months early. And from
  31 January 2024 the first move to the next month asks for 31 February:
  it raises and the schedule is empty.
\<close>

theorem monthly_labels_lag_behind:
  "start_date three_year_input = \<lparr>year = 2024, month = 1, day = 15\<rparr> \<and>
   map (\<lambda>row. (mo_month row, mo_date row)) (generate_monthly_schedule three_year_input) =
     [(1, (''Jan'', 2024)), (2, (''Feb'', 2024)), (3, (''Mar'', 2024)), (4, (''Apr'', 2024)),
      (5, (''May'', 2024)), (6, (''Jun'', 2024)), (7, (''Jul'', 2024)), (8, (''Aug'', 2024)),
      (9, (''Sep'', 2024)), (10, (''Oct'', 2024)), (11, (''Nov'', 2024)), (12, (''Dec'', 2024)),
      (25, (''Jan'', 2025)), (26, (''Feb'', 2025)), (27, (''Mar'', 2025)), (28, (''Apr'', 2025)),
      (29, (''May'', 2025)), (30, (''Jun'', 2025)), (31, (''Jul'', 2025)), (32, (''Aug'', 2025)),
      (33, (''Sep'', 2025)), (34, (''Oct'', 2025)), (35, (''Nov'', 2025)), (36, (''Dec'', 2025))] \<and>
   calculate_mortgage month_end_input \<noteq> None \<and>
   generate_monthly_schedule month_end_input = []"
proof -
  let ?rows = "generate_monthly_schedule three_year_input"
  have "map (\<lambda>row. (mo_month row, mo_date row)) ?rows =
      map (\<lambda>(m, d, b). (m, d))
        (map (\<lambda>row. (mo_month row, mo_date row, mo_ending_balance row)) ?rows)"
    by simp
  also have "\<dots> =
     [(1, (''Jan'', 2024)), (2, (''Feb'', 2024)), (3, (''Mar'', 2024)), (4, (''Apr'', 2024)),
      (5, (''May'', 2024)), (6, (''Jun'', 2024)), (7, (''Jul'', 2024)), (8, (''Aug'', 2024)),
      (9, (''Sep'', 2024)), (10, (''Oct'', 2024)), (11, (''Nov'', 2024)), (12, (''Dec'', 2024)),
      (25, (''Jan'', 2025)), (26, (''Feb'', 2025)), (27, (''Mar'', 2025)), (28, (''Apr'', 2025)),
      (29, (''May'', 2025)), (30, (''Jun'', 2025)), (31, (''Jul'', 2025)), (32, (''Aug'', 2025)),
      (33, (''Sep'', 2025)), (34, (''Oct'', 2025)), (35, (''Nov'', 2025)), (36, (''Dec'', 2025))]"
    by (simp only: three_year_schedule) simp
  finally have labels: "map (\<lambda>row. (mo_month row, mo_date row)) ?rows =
     [(1, (''Jan'', 2024)), (2, (''Feb'', 2024)), (3, (''Mar'', 2024)), (4, (''Apr'', 2024)),
      (5, (''May'', 2024)), (6, (''Jun'', 2024)), (7, (''Jul'', 2024)), (8, (''Aug'', 2024)),
      (9, (''Sep'', 2024)), (10, (''Oct'', 2024)), (11, (''Nov'', 2024)), (12, (''Dec'', 2024)),
      (25, (''Jan'', 2025)), (26, (''Feb'', 2025)), (27, (''Mar'', 2025)), (28, (''Apr'', 2025)),
      (29, (''May'', 2025)), (30, (''Jun'', 2025)), (31, (''Jul'', 2025)), (32, (''Aug'', 2025)),
      (33, (''Sep'', 2025)), (34, (''Oct'', 2025)), (35, (''Nov'', 2025)), (36, (''Dec'', 2025))]" .
  have sd: "start_date three_year_input = \<lparr>year = 2024, month = 1, day = 15\<rparr>"
    by (simp add: three_year_input_def base_input_def)
  have "next_month (start_date month_end_input) = Inl ValueError"
    by (simp add: month_end_input_def three_year_input_def base_input_def date_defs)
  then have e: "generate_monthly_schedule month_end_input = []"
    by (rule monthly_schedule_empty_when_date_fails)
  have s: "calculate_mortgage month_end_input \<noteq> None"
    by (simp add: calculate_mortgage_def calculate_mortgage_body_def monthly_payment_def
      py_div_def loan_payoff_date_def input_defs month_end_input_def three_year_input_def
      base_input_def date_defs)
  from sd labels e s show ?thesis by simp
qed


end
